theory Spec2Isabelle
  imports Complex_Main
begin

section \<open>The table handed to the sanitizer\<close>

text \<open>
  \<^verbatim>\<open>main.py\<close> works on a pandas \<^verbatim>\<open>DataFrame\<close>: an ordered sequence of named columns,
  each column a \<^verbatim>\<open>Series\<close> with one element type (its dtype) and one value per row.
  A missing value is \<open>Null\<close>. Numeric values are kept as exact decimal quantities.
\<close>

datatype dtype = Int64 | Float64 | Bool | Object | Datetime64

datatype cell = Num rat | Bln bool | Str string | Null

record series =
  dtype :: dtype
  cells :: "cell list"

type_synonym dataframe = "(string \<times> series) list"

text \<open>The exceptions the program distinguishes, each with the text \<^verbatim>\<open>str(e)\<close> shows.\<close>

datatype error =
    KeyError string
  | TypeError string
  | ValueError string
  | FileNotFoundError string
  | OtherError string

text \<open>What the program does to the outside world, in the order it does it.\<close>

datatype event =
    LogInfo string
  | LogError string
  | ReadCsv string
  | ReadJson string
  | ToCsv string dataframe
  | ToJson string dataframe

subsection \<open>The operations of the tabular library used by the sanitizer\<close>

text \<open>\<^verbatim>\<open>df[column_name]\<close>: the column of that name, \<^verbatim>\<open>KeyError(column_name)\<close> when there is none.\<close>

definition getitem :: "dataframe \<Rightarrow> string \<Rightarrow> error + series" where
  "getitem df column_name =
     (case map_of df column_name of
        None \<Rightarrow> Inl (KeyError column_name)
      | Some s \<Rightarrow> Inr s)"

text \<open>
  \<^verbatim>\<open>df[column_name] = s\<close>: an existing column is replaced where it stands, a new one is
  appended.
\<close>

fun setitem :: "dataframe \<Rightarrow> string \<Rightarrow> series \<Rightarrow> dataframe" where
  "setitem [] column_name s = [(column_name, s)]"
| "setitem ((k, old) # df) column_name s =
     (if k = column_name then (column_name, s) # df
      else (k, old) # setitem df column_name s)"

text \<open>
  Modelled from the spec: \<^verbatim>\<open>pandas.api.types.is_numeric_dtype\<close> belongs to the tabular
  library, not to this repository. The spec says that the numeric classification
  "relies on a runtime type tag from its tabular library"; that library counts the
  integer, the floating-point and the boolean dtype as numeric, and neither strings
  (object) nor dates.
\<close>

fun is_numeric_dtype :: "dtype \<Rightarrow> bool" where
  "is_numeric_dtype Int64 = True"
| "is_numeric_dtype Float64 = True"
| "is_numeric_dtype Bool = True"
| "is_numeric_dtype Object = False"
| "is_numeric_dtype Datetime64 = False"

text \<open>
  Modelled from the spec: \<^verbatim>\<open>Series.round\<close> belongs to the tabular library, not to this
  repository. The spec describes it as \<^verbatim>\<open>round_half_to_even(v, precision)\<close> on every value
  of the column, a precision of \<open>N > 0\<close> keeping \<open>N\<close> decimal places, \<open>0\<close> rounding to
  whole numbers and \<open>N < 0\<close> to tens, hundreds, ..., a value halfway between two
  candidates going to the even one, and null values passing through unchanged. The
  rounding here is on the exact decimal value; the binary floating-point arithmetic of
  the library is not part of this model.
\<close>

definition scale :: "int \<Rightarrow> rat" where
  "scale precision =
     (if 0 \<le> precision then 10 ^ nat precision else 1 / 10 ^ nat (- precision))"

definition rint :: "rat \<Rightarrow> int" where
  "rint x =
     (let f = \<lfloor>x\<rfloor>; d = x - of_int f
      in if d < 1 / 2 then f
         else if 1 / 2 < d then f + 1
         else if even f then f else f + 1)"

definition round_half_to_even :: "rat \<Rightarrow> int \<Rightarrow> rat" where
  "round_half_to_even v precision = of_int (rint (v * scale precision)) / scale precision"

fun round_cell :: "int \<Rightarrow> cell \<Rightarrow> cell" where
  "round_cell precision (Num v) = Num (round_half_to_even v precision)"
| "round_cell precision (Bln b) = Bln b"
| "round_cell precision (Str t) = Str t"
| "round_cell precision Null = Null"

definition round_series :: "series \<Rightarrow> int \<Rightarrow> series" where
  "round_series s precision = s\<lparr>cells := map (round_cell precision) (cells s)\<rparr>"

section \<open>The sanitizer\<close>

text \<open>\<^verbatim>\<open>str(e)\<close> of an exception; for a \<^verbatim>\<open>KeyError\<close> it is the key in quotes.\<close>

fun str_of :: "error \<Rightarrow> string" where
  "str_of (KeyError k) = [CHR 0x27] @ k @ [CHR 0x27]"
| "str_of (TypeError m) = m"
| "str_of (ValueError m) = m"
| "str_of (FileNotFoundError m) = m"
| "str_of (OtherError m) = m"

text \<open>
  \<^verbatim>\<open>sanitize_number_variance(df, column_name, precision)\<close> assigns to the table it is
  given. Its outcome is the caller's table as the call leaves it, what the call logs, and
  what it returns or raises.
\<close>

record outcome =
  table_after :: dataframe
  logged :: "event list"
  returned :: "error + dataframe"

definition sanitize_number_variance :: "dataframe \<Rightarrow> string \<Rightarrow> int \<Rightarrow> outcome" where
  "sanitize_number_variance df column_name precision =
     (case getitem df column_name of
        Inl e \<Rightarrow>
          \<lparr>table_after = df,
           logged = [LogError (''Column '' @ [CHR 0x27] @ column_name @ [CHR 0x27] @
             '' not found in the dataframe. Please verify that the column name is correct.'')],
           returned = Inl e\<rparr>
      | Inr s \<Rightarrow>
          if \<not> is_numeric_dtype (dtype s) then
            (let e = TypeError (''Column '' @ [CHR 0x27] @ column_name @ [CHR 0x27] @
                       '' is not numeric. Please select a numeric column.'')
             in \<lparr>table_after = df,
                 logged = [LogError (''An unexpected error occurred: '' @ str_of e)],
                 returned = Inl e\<rparr>)
          else
            (let df' = setitem df column_name (round_series s precision)
             in \<lparr>table_after = df', logged = [], returned = Inr df'\<rparr>))"

section \<open>The command-line program\<close>

text \<open>
  The parsed command line: two positional arguments and three options. \<^verbatim>\<open>--precision\<close>
  defaults to \<open>0\<close>; \<^verbatim>\<open>--output_file\<close> and \<^verbatim>\<open>--file_type\<close> are \<open>None\<close> when not given.
\<close>

record args =
  input_file :: string
  column_name :: string
  precision :: int
  output_file :: "string option"
  file_type :: "string option"

text \<open>
  Reading and writing files is the tabular library's work and is left open: the program
  is given the four routines it calls. A read returns a table or raises; a write
  returns the file system it leaves behind and, when it raises, the exception. The type
  \<open>'fs\<close> of file systems is arbitrary.
\<close>

record 'fs pandas_io =
  read_csv :: "'fs \<Rightarrow> string \<Rightarrow> error + dataframe"
  read_json :: "'fs \<Rightarrow> string \<Rightarrow> error + dataframe"
  to_csv :: "dataframe \<Rightarrow> string \<Rightarrow> 'fs \<Rightarrow> 'fs \<times> error option"
  to_json :: "dataframe \<Rightarrow> string \<Rightarrow> 'fs \<Rightarrow> 'fs \<times> error option"

text \<open>
  \<^verbatim>\<open>str.lower\<close> and \<^verbatim>\<open>str.endswith\<close>. Only the ASCII capitals are mapped: no other
  character lowers to one of \<^verbatim>\<open>.csvjon\<close>, so the two suffix tests see no difference.
\<close>

definition lower_char :: "char \<Rightarrow> char" where
  "lower_char c =
     (let n = (of_char c :: nat) in if 65 \<le> n \<and> n \<le> 90 then char_of (n + 32) else c)"

definition lower :: "string \<Rightarrow> string" where
  "lower s = map lower_char s"

definition endswith :: "string \<Rightarrow> string \<Rightarrow> bool" where
  "endswith s suffix =
     (length suffix \<le> length s \<and> drop (length s - length suffix) s = suffix)"

text \<open>Truth of an optional string in a condition: \<^verbatim>\<open>None\<close> and \<^verbatim>\<open>''\<close> are false.\<close>

fun truthy :: "string option \<Rightarrow> bool" where
  "truthy None = False"
| "truthy (Some s) = (s \<noteq> [])"

text \<open>\<^verbatim>\<open>output_file = args.output_file if args.output_file else input_file\<close>\<close>

definition target_file :: "args \<Rightarrow> string" where
  "target_file a = (if truthy (output_file a) then the (output_file a) else input_file a)"

text \<open>
  The steps inside the \<^verbatim>\<open>try\<close> of \<^verbatim>\<open>main\<close>, each with the events it produces. The
  first one yields the file type the later steps branch on.
\<close>

definition infer_file_type :: "args \<Rightarrow> error + string \<times> event list" where
  "infer_file_type a =
     (if \<not> truthy (file_type a) then
        if endswith (lower (input_file a)) ''.csv'' then
          Inr (''csv'', [LogInfo (''File type inferred: '' @ ''csv'')])
        else if endswith (lower (input_file a)) ''.json'' then
          Inr (''json'', [LogInfo (''File type inferred: '' @ ''json'')])
        else
          Inl (ValueError
            ''Could not infer file type from extension.  Please specify using --file_type.'')
      else Inr (the (file_type a), []))"

definition read_the_data ::
  "'fs pandas_io \<Rightarrow> string \<Rightarrow> 'fs \<Rightarrow> string \<Rightarrow> event list \<times> (error + dataframe)" where
  "read_the_data io t fs path =
     (if t = ''csv'' then ([ReadCsv path], read_csv io fs path)
      else if t = ''json'' then ([ReadJson path], read_json io fs path)
      else ([], Inl (ValueError (''Invalid file type. Choose '' @ [CHR 0x27] @ ''csv'' @
              [CHR 0x27] @ '' or '' @ [CHR 0x27] @ ''json'' @ [CHR 0x27] @ ''.''))))"

definition write_the_output ::
  "'fs pandas_io \<Rightarrow> string \<Rightarrow> dataframe \<Rightarrow> string \<Rightarrow> 'fs \<Rightarrow> event list \<times> 'fs \<times> error option" where
  "write_the_output io t df path fs =
     (if t = ''csv'' then ([ToCsv path df], to_csv io df path fs)
      else if t = ''json'' then ([ToJson path df], to_json io df path fs)
      else ([], fs, None))"

text \<open>
  The body of the \<^verbatim>\<open>try\<close>: the events so far, the file system, and the exception
  that ended it, if one did.
\<close>

definition main_try :: "'fs pandas_io \<Rightarrow> args \<Rightarrow> 'fs \<Rightarrow> event list \<times> 'fs \<times> error option" where
  "main_try io a fs =
     (case infer_file_type a of
        Inl e \<Rightarrow> ([], fs, Some e)
      | Inr (t, ev0) \<Rightarrow>
          (case read_the_data io t fs (input_file a) of
             (ev1, Inl e) \<Rightarrow> (ev0 @ ev1, fs, Some e)
           | (ev1, Inr df) \<Rightarrow>
               (let r = sanitize_number_variance df (column_name a) (precision a)
                in case returned r of
                     Inl e \<Rightarrow> (ev0 @ ev1 @ logged r, fs, Some e)
                   | Inr df' \<Rightarrow>
                       (case write_the_output io t df' (target_file a) fs of
                          (ev2, fs', Some e) \<Rightarrow> (ev0 @ ev1 @ logged r @ ev2, fs', Some e)
                        | (ev2, fs', None) \<Rightarrow>
                            (ev0 @ ev1 @ logged r @ ev2 @
                               [LogInfo (''Data sanitization complete. Output written to '' @
                                  target_file a)],
                             fs', None)))))"

text \<open>The \<^verbatim>\<open>except\<close> clauses of \<^verbatim>\<open>main\<close>: what each logs before \<^verbatim>\<open>sys.exit(1)\<close>.\<close>

fun except :: "string \<Rightarrow> error \<Rightarrow> event list" where
  "except inp (FileNotFoundError m) = [LogError (''Input file not found: '' @ inp)]"
| "except inp (ValueError m) = [LogError (''Value Error: '' @ m)]"
| "except inp (TypeError m) = [LogError (''Type Error: '' @ m)]"
| "except inp (KeyError k) = []"
| "except inp (OtherError m) = [LogError (''An unexpected error occurred: '' @ m)]"

text \<open>A run of the program: its exit status, its events in order, the files it leaves.\<close>

record 'fs run =
  exit_status :: int
  events :: "event list"
  files :: 'fs

definition main :: "'fs pandas_io \<Rightarrow> args \<Rightarrow> 'fs \<Rightarrow> 'fs run" where
  "main io a fs =
     (case main_try io a fs of
        (ev, fs', None) \<Rightarrow> \<lparr>exit_status = 0, events = ev, files = fs'\<rparr>
      | (ev, fs', Some e) \<Rightarrow>
          \<lparr>exit_status = 1, events = ev @ except (input_file a) e, files = fs'\<rparr>)"

text \<open>The events that call the Writer, and those that call the Loader.\<close>

fun is_write :: "event \<Rightarrow> bool" where
  "is_write (ToCsv path df) = True"
| "is_write (ToJson path df) = True"
| "is_write ev = False"

fun is_read :: "event \<Rightarrow> bool" where
  "is_read (ReadCsv path) = True"
| "is_read (ReadJson path) = True"
| "is_read ev = False"

section \<open>Sample data\<close>

text \<open>
  A table with a string, a floating-point, an integer and a boolean column, and a file
  store kept in memory (each file holds the format it was written in and its table), on
  which the theorems below are run.
\<close>

definition name_column :: series where
  "name_column = \<lparr>dtype = Object, cells = [Str ''1.5'', Str ''pear'', Null]\<rparr>"

definition price_column :: series where
  "price_column = \<lparr>dtype = Float64, cells = [Num (2345 / 1000), Null, Num (7 / 2)]\<rparr>"

definition sold_column :: series where
  "sold_column = \<lparr>dtype = Bool, cells = [Bln True, Bln False, Bln True]\<rparr>"

definition prices :: dataframe where
  "prices =
     [(''name'', \<lparr>dtype = Object, cells = [Str ''1.5'', Str ''pear'', Null]\<rparr>),
      (''price'', \<lparr>dtype = Float64, cells = [Num (2345 / 1000), Null, Num (7 / 2)]\<rparr>),
      (''stock'', \<lparr>dtype = Int64, cells = [Num 25, Num 35, Num 1234]\<rparr>),
      (''sold'', \<lparr>dtype = Bool, cells = [Bln True, Bln False, Bln True]\<rparr>)]"

definition flags :: dataframe where
  "flags = [(''id'', \<lparr>dtype = Int64, cells = [Num 1, Num 2]\<rparr>),
            (''active'', \<lparr>dtype = Bool, cells = [Bln False, Bln True]\<rparr>)]"

type_synonym store = "(string \<times> string \<times> dataframe) list"

definition load :: "store \<Rightarrow> string \<Rightarrow> error + dataframe" where
  "load fs path =
     (case map_of fs path of
        None \<Rightarrow> Inl (FileNotFoundError path)
      | Some (fmt, df) \<Rightarrow> Inr df)"

definition store_io :: "store pandas_io" where
  "store_io =
     \<lparr>read_csv = load, read_json = load,
      to_csv = (\<lambda>df path fs. ((path, ''csv'', df) # fs, None)),
      to_json = (\<lambda>df path fs. ((path, ''json'', df) # fs, None))\<rparr>"

text \<open>A file store holding the table as \<^verbatim>\<open>data.csv\<close>, and a command line that leaves the file type to be inferred.\<close>

definition disk :: store where
  "disk = [(''data.csv'', ''csv'', prices)]"

definition cli :: "string \<Rightarrow> string \<Rightarrow> string option \<Rightarrow> args" where
  "cli file col out =
     \<lparr>input_file = file, column_name = col, precision = 2, output_file = out, file_type = None\<rparr>"

section \<open>Facts about the library operations\<close>

lemma map_of_setitem_same: "map_of (setitem df c s) c = Some s"
  by (induction df c s rule: setitem.induct) auto

lemma map_of_setitem_other: "c' \<noteq> c \<Longrightarrow> map_of (setitem df c s) c' = map_of df c'"
  by (induction df c s rule: setitem.induct) auto

lemma names_setitem: "c \<in> fst ` set df \<Longrightarrow> map fst (setitem df c s) = map fst df"
  by (induction df c s rule: setitem.induct) auto

lemma nth_setitem_other:
  "i < length df \<Longrightarrow> fst (df ! i) \<noteq> c \<Longrightarrow> setitem df c s ! i = df ! i"
proof (induction df c s arbitrary: i rule: setitem.induct)
  case (1 c s)
  then show ?case by simp
next
  case (2 k old df c s)
  then show ?case by (cases i) auto
qed

lemma rows_setitem:
  "map_of df c = Some old \<Longrightarrow> length (cells s) = length (cells old) \<Longrightarrow>
   map (\<lambda>col. length (cells (snd col))) (setitem df c s) =
   map (\<lambda>col. length (cells (snd col))) df"
  by (induction df c s rule: setitem.induct) (auto split: if_splits)


section \<open>The three ways through the sanitizer\<close>

lemma sanitize_missing:
  assumes "map_of df c = None"
  shows "sanitize_number_variance df c p =
    \<lparr>table_after = df,
     logged = [LogError (''Column '' @ [CHR 0x27] @ c @ [CHR 0x27] @
        '' not found in the dataframe. Please verify that the column name is correct.'')],
     returned = Inl (KeyError c)\<rparr>"
  using assms by (simp add: sanitize_number_variance_def getitem_def)

lemma sanitize_not_numeric:
  assumes "map_of df c = Some s" and "\<not> is_numeric_dtype (dtype s)"
  shows "sanitize_number_variance df c p =
    \<lparr>table_after = df,
     logged = [LogError (''An unexpected error occurred: '' @ ''Column '' @ [CHR 0x27] @ c @
        [CHR 0x27] @ '' is not numeric. Please select a numeric column.'')],
     returned = Inl (TypeError (''Column '' @ [CHR 0x27] @ c @ [CHR 0x27] @
        '' is not numeric. Please select a numeric column.''))\<rparr>"
  using assms by (simp add: sanitize_number_variance_def getitem_def Let_def)

lemma sanitize_numeric:
  assumes "map_of df c = Some s" and "is_numeric_dtype (dtype s)"
  shows "sanitize_number_variance df c p =
    \<lparr>table_after = setitem df c (round_series s p), logged = [],
     returned = Inr (setitem df c (round_series s p))\<rparr>"
  using assms by (simp add: sanitize_number_variance_def getitem_def Let_def)

lemma prices_name: "map_of prices ''name'' = Some name_column"
  by (simp add: prices_def name_column_def)

lemma prices_price: "map_of prices ''price'' = Some price_column"
  by (simp add: prices_def price_column_def)

lemma prices_sold: "map_of prices ''sold'' = Some sold_column"
  by (simp add: prices_def sold_column_def)

lemma price_column_numeric: "is_numeric_dtype (dtype price_column)"
  by (simp add: price_column_def)

section \<open>Properties of the sanitizer\<close>

text \<open>
  C2. Sanitizing a numeric column \<open>c\<close> keeps the names and the order of the columns,
  leaves every column at a position not named \<open>c\<close> exactly as it was (so the lookup of
  any other name is unchanged too), keeps the number of rows of every column, and puts in
  the target column the old values rounded position by position, so the rows stay in
  order. This holds for a table of any width, in particular for one with two or more
  columns.
\<close>

theorem other_columns_untouched:
  assumes "map_of df c = Some s" and "is_numeric_dtype (dtype s)"
  shows "map fst (table_after (sanitize_number_variance df c p)) = map fst df
    \<and> (\<forall>i < length df. fst (df ! i) \<noteq> c \<longrightarrow>
          table_after (sanitize_number_variance df c p) ! i = df ! i)
    \<and> (\<forall>c'. c' \<noteq> c \<longrightarrow>
          map_of (table_after (sanitize_number_variance df c p)) c' = map_of df c')
    \<and> map (\<lambda>col. length (cells (snd col))) (table_after (sanitize_number_variance df c p)) =
        map (\<lambda>col. length (cells (snd col))) df
    \<and> map_of (table_after (sanitize_number_variance df c p)) c =
        Some (s\<lparr>cells := map (round_cell p) (cells s)\<rparr>)"
proof -
  let ?s' = "round_series s p"
  have out: "table_after (sanitize_number_variance df c p) = setitem df c ?s'"
    using sanitize_numeric [OF assms] by simp
  from assms(1) have mem: "c \<in> fst ` set df"
    by (metis map_of_eq_None_iff option.distinct(1))
  have len: "length (cells ?s') = length (cells s)"
    by (simp add: round_series_def)
  have "map fst (setitem df c ?s') = map fst df"
    using mem by (rule names_setitem)
  moreover have "\<forall>i < length df. fst (df ! i) \<noteq> c \<longrightarrow> setitem df c ?s' ! i = df ! i"
    by (simp add: nth_setitem_other)
  moreover have "\<forall>c'. c' \<noteq> c \<longrightarrow> map_of (setitem df c ?s') c' = map_of df c'"
    by (simp add: map_of_setitem_other)
  moreover have "map (\<lambda>col. length (cells (snd col))) (setitem df c ?s') =
      map (\<lambda>col. length (cells (snd col))) df"
    using assms(1) len by (rule rows_setitem)
  moreover have "map_of (setitem df c ?s') c =
      Some (s\<lparr>cells := map (round_cell p) (cells s)\<rparr>)"
    by (simp add: map_of_setitem_same round_series_def)
  ultimately show ?thesis
    unfolding out by blast
qed

theorem other_columns_untouched_witness:
  "map_of prices ''price'' = Some price_column
   \<and> is_numeric_dtype (dtype price_column)
   \<and> 2 \<le> length prices
   \<and> map fst (table_after (sanitize_number_variance prices ''price'' 2)) =
       [''name'', ''price'', ''stock'', ''sold'']
   \<and> table_after (sanitize_number_variance prices ''price'' 2) ! 2 =
       (''stock'', \<lparr>dtype = Int64, cells = [Num 25, Num 35, Num 1234]\<rparr>)
   \<and> map (\<lambda>col. length (cells (snd col)))
       (table_after (sanitize_number_variance prices ''price'' 2)) = [3, 3, 3, 3]"
proof -
  note h1 = prices_price and h2 = price_column_numeric
  note c = other_columns_untouched [OF h1 h2, of 2]
  have n: "2 < length prices" "fst (prices ! 2) \<noteq> ''price''"
    by (simp_all add: prices_def)
  have names: "map fst (table_after (sanitize_number_variance prices ''price'' 2)) = map fst prices"
    using c by (rule conjunct1)
  have "\<forall>i < length prices. fst (prices ! i) \<noteq> ''price'' \<longrightarrow>
      table_after (sanitize_number_variance prices ''price'' 2) ! i = prices ! i"
    using c by (rule conjunct2 [THEN conjunct1])
  with n have third: "table_after (sanitize_number_variance prices ''price'' 2) ! 2 = prices ! 2"
    by simp
  have rows: "map (\<lambda>col. length (cells (snd col)))
        (table_after (sanitize_number_variance prices ''price'' 2)) =
      map (\<lambda>col. length (cells (snd col))) prices"
    using c by (rule conjunct2 [THEN conjunct2, THEN conjunct2, THEN conjunct1])
  have "2 \<le> length prices" using n by simp
  then show ?thesis
    unfolding names third rows using h1 h2 by (simp add: prices_def price_column_def)
qed

text \<open>
  C3, as the claim states it, fails: a boolean column is neither integer nor
  floating-point, yet the numeric check lets it through and the call returns a table.
\<close>

theorem boolean_column_not_rejected:
  "map_of prices ''sold'' = Some sold_column
   \<and> dtype sold_column \<noteq> Int64 \<and> dtype sold_column \<noteq> Float64
   \<and> returned (sanitize_number_variance prices ''sold'' 0) = Inr prices
   \<and> logged (sanitize_number_variance prices ''sold'' 0) = []"
proof -
  have "is_numeric_dtype (dtype sold_column)" by (simp add: sold_column_def)
  with prices_sold have "sanitize_number_variance prices ''sold'' 0 =
      \<lparr>table_after = setitem prices ''sold'' (round_series sold_column 0), logged = [],
       returned = Inr (setitem prices ''sold'' (round_series sold_column 0))\<rparr>"
    by (rule sanitize_numeric)
  moreover have "setitem prices ''sold'' (round_series sold_column 0) = prices"
    by (simp add: prices_def sold_column_def round_series_def)
  ultimately show ?thesis
    using prices_sold by (simp add: sold_column_def)
qed

text \<open>
  C3, amended. When the column exists and its element type is one the library's check
  does not count as numeric (strings and dates; not booleans), the sanitizer raises the
  \<^verbatim>\<open>TypeError\<close> naming the column (the spec's NotNumericColumn) and leaves the table it
  was given as it was. Nothing is converted: a string column whose values look like
  numbers is rejected like any other.
\<close>

theorem non_numeric_column_fails:
  assumes "map_of df c = Some s" and "\<not> is_numeric_dtype (dtype s)"
  shows "returned (sanitize_number_variance df c p) =
      Inl (TypeError (''Column '' @ [CHR 0x27] @ c @ [CHR 0x27] @
        '' is not numeric. Please select a numeric column.''))
    \<and> table_after (sanitize_number_variance df c p) = df"
  using sanitize_not_numeric [OF assms] by simp

theorem non_numeric_column_fails_witness:
  "map_of prices ''name'' = Some name_column
   \<and> \<not> is_numeric_dtype (dtype name_column)
   \<and> cells name_column ! 0 = Str ''1.5''
   \<and> returned (sanitize_number_variance prices ''name'' 1) =
       Inl (TypeError (''Column '' @ [CHR 0x27] @ ''name'' @ [CHR 0x27] @
         '' is not numeric. Please select a numeric column.''))
   \<and> table_after (sanitize_number_variance prices ''name'' 1) = prices"
proof -
  have h2: "\<not> is_numeric_dtype (dtype name_column)" by (simp add: name_column_def)
  show ?thesis
    using prices_name h2 non_numeric_column_fails [OF prices_name h2, of 1]
    by (simp add: name_column_def)
qed

text \<open>
  C4. When the column name is not a key of the table, the sanitizer raises the
  \<^verbatim>\<open>KeyError\<close> that carries the missing name (the spec's ColumnNotFound), logs the name,
  returns no table, and leaves the table it was given as it was.
\<close>

theorem missing_column_fails:
  assumes "c \<notin> fst ` set df"
  shows "returned (sanitize_number_variance df c p) = Inl (KeyError c)
    \<and> table_after (sanitize_number_variance df c p) = df
    \<and> logged (sanitize_number_variance df c p) =
        [LogError (''Column '' @ [CHR 0x27] @ c @ [CHR 0x27] @
           '' not found in the dataframe. Please verify that the column name is correct.'')]"
proof -
  from assms have "map_of df c = None"
    by (simp add: map_of_eq_None_iff)
  then show ?thesis
    by (simp add: sanitize_missing)
qed

theorem missing_column_fails_witness:
  "''weight'' \<notin> fst ` set prices
   \<and> returned (sanitize_number_variance prices ''weight'' 2) = Inl (KeyError ''weight'')
   \<and> table_after (sanitize_number_variance prices ''weight'' 2) = prices"
proof -
  have h: "''weight'' \<notin> fst ` set prices" by (simp add: prices_def)
  show ?thesis using h missing_column_fails [OF h, of 2] by simp
qed



text \<open>
  C9. A boolean column passes the numeric check: the sanitizer raises no
  \<^verbatim>\<open>TypeError\<close>, logs nothing, and returns the table with the library's rounding of that
  column assigned to it.
\<close>

theorem boolean_column_accepted:
  assumes "map_of df c = Some s" and "dtype s = Bool"
  shows "returned (sanitize_number_variance df c p) = Inr (setitem df c (round_series s p))
    \<and> logged (sanitize_number_variance df c p) = []
    \<and> (\<forall>m. returned (sanitize_number_variance df c p) \<noteq> Inl (TypeError m))"
proof -
  from assms(2) have "is_numeric_dtype (dtype s)" by simp
  with assms(1) show ?thesis
    by (simp add: sanitize_numeric)
qed

theorem boolean_column_accepted_witness:
  "map_of flags ''active'' = Some \<lparr>dtype = Bool, cells = [Bln False, Bln True]\<rparr>
   \<and> dtype \<lparr>dtype = Bool, cells = [Bln False, Bln True]\<rparr> = Bool
   \<and> returned (sanitize_number_variance flags ''active'' 3) = Inr flags"
proof -
  have h1: "map_of flags ''active'' = Some \<lparr>dtype = Bool, cells = [Bln False, Bln True]\<rparr>"
    by (simp add: flags_def)
  have h2: "dtype \<lparr>dtype = Bool, cells = [Bln False, Bln True]\<rparr> = Bool"
    by simp
  have "setitem flags ''active''
      (round_series \<lparr>dtype = Bool, cells = [Bln False, Bln True]\<rparr> 3) = flags"
    by (simp add: flags_def round_series_def)
  then show ?thesis
    using h1 boolean_column_accepted [OF h1 h2, of 3] by simp
qed

section \<open>Properties of the program\<close>

lemma infer_no_write:
  "infer_file_type a = Inr (t, ev0) \<Longrightarrow> filter is_write ev0 = []"
  by (auto simp: infer_file_type_def split: if_splits)

lemma read_no_write:
  "read_the_data io t fs path = (ev1, r) \<Longrightarrow> filter is_write ev1 = []"
  by (auto simp: read_the_data_def split: if_splits)

lemma sanitize_no_write:
  "filter is_write (logged (sanitize_number_variance df c p)) = []"
  by (simp add: sanitize_number_variance_def Let_def split: sum.splits)

lemma except_no_write: "filter is_write (except inp e) = []"
  by (cases e) simp_all

lemma main_sanitize_fails:
  assumes "infer_file_type a = Inr (t, ev0)"
    and "read_the_data io t fs (input_file a) = (ev1, Inr df)"
    and "returned (sanitize_number_variance df (column_name a) (precision a)) = Inl e"
  shows "main io a fs =
    \<lparr>exit_status = 1,
     events = ev0 @ ev1 @ logged (sanitize_number_variance df (column_name a) (precision a)) @
       except (input_file a) e,
     files = fs\<rparr>"
  using assms by (simp add: main_def main_try_def Let_def)

lemma main_written:
  assumes "infer_file_type a = Inr (t, ev0)"
    and "read_the_data io t fs (input_file a) = (ev1, Inr df)"
    and "returned (sanitize_number_variance df (column_name a) (precision a)) = Inr df'"
    and "write_the_output io t df' (target_file a) fs = (ev2, fs', None)"
  shows "main io a fs =
    \<lparr>exit_status = 0,
     events = ev0 @ ev1 @ logged (sanitize_number_variance df (column_name a) (precision a)) @
       ev2 @ [LogInfo (''Data sanitization complete. Output written to '' @ target_file a)],
     files = fs'\<rparr>"
  using assms by (simp add: main_def main_try_def Let_def)

lemma main_write_fails:
  assumes "infer_file_type a = Inr (t, ev0)"
    and "read_the_data io t fs (input_file a) = (ev1, Inr df)"
    and "returned (sanitize_number_variance df (column_name a) (precision a)) = Inr df'"
    and "write_the_output io t df' (target_file a) fs = (ev2, fs', Some e)"
  shows "main io a fs =
    \<lparr>exit_status = 1,
     events = ev0 @ ev1 @ logged (sanitize_number_variance df (column_name a) (precision a)) @
       ev2 @ except (input_file a) e,
     files = fs'\<rparr>"
  using assms by (simp add: main_def main_try_def Let_def)

lemma cli_infer:
  "infer_file_type (cli ''data.csv'' col out) = Inr (''csv'', [LogInfo ''File type inferred: csv''])"
  by (simp add: infer_file_type_def cli_def endswith_def lower_def lower_char_def)

lemma cli_read:
  "read_the_data store_io ''csv'' disk (input_file (cli ''data.csv'' col out)) =
     ([ReadCsv ''data.csv''], Inr prices)"
  by (simp add: read_the_data_def store_io_def load_def disk_def cli_def)

lemma cli_fields:
  "column_name (cli file col out) = col" "precision (cli file col out) = 2"
  "input_file (cli file col out) = file"
  by (simp_all add: cli_def)

text \<open>
  C7. Take a run whose file type is settled and whose input file was read. If the
  sanitizer raises, whatever the exception, the program exits with status 1, the file
  system is as it was before the run, and no event of the run is a call of the Writer. If
  the sanitizer returns a table and the Writer then completes, the program exits with
  status 0.
\<close>

theorem sanitizer_failure_stops_run:
  assumes "infer_file_type a = Inr (t, ev0)"
    and "read_the_data io t fs (input_file a) = (ev1, Inr df)"
  shows "(\<forall>e. returned (sanitize_number_variance df (column_name a) (precision a)) = Inl e \<longrightarrow>
            exit_status (main io a fs) = 1
          \<and> files (main io a fs) = fs
          \<and> filter is_write (events (main io a fs)) = [])
    \<and> (\<forall>df' ev2 fs'.
            returned (sanitize_number_variance df (column_name a) (precision a)) = Inr df'
          \<and> write_the_output io t df' (target_file a) fs = (ev2, fs', None) \<longrightarrow>
            exit_status (main io a fs) = 0 \<and> files (main io a fs) = fs')"
proof (intro conjI allI impI)
  fix e
  assume f: "returned (sanitize_number_variance df (column_name a) (precision a)) = Inl e"
  note m = main_sanitize_fails [OF assms f]
  show "exit_status (main io a fs) = 1" by (simp add: m)
  show "files (main io a fs) = fs" by (simp add: m)
  show "filter is_write (events (main io a fs)) = []"
    by (simp add: m infer_no_write [OF assms(1)] read_no_write [OF assms(2)]
        sanitize_no_write except_no_write)
next
  fix df' ev2 fs'
  assume "returned (sanitize_number_variance df (column_name a) (precision a)) = Inr df'
    \<and> write_the_output io t df' (target_file a) fs = (ev2, fs', None)"
  then have m: "main io a fs =
    \<lparr>exit_status = 0,
     events = ev0 @ ev1 @ logged (sanitize_number_variance df (column_name a) (precision a)) @
       ev2 @ [LogInfo (''Data sanitization complete. Output written to '' @ target_file a)],
     files = fs'\<rparr>"
    using main_written [OF assms] by blast
  show "exit_status (main io a fs) = 0" by (simp add: m)
  show "files (main io a fs) = fs'" by (simp add: m)
qed

theorem sanitizer_failure_stops_run_witness:
  "infer_file_type (cli ''data.csv'' ''name'' None) =
     Inr (''csv'', [LogInfo ''File type inferred: csv''])
   \<and> read_the_data store_io ''csv'' disk ''data.csv'' = ([ReadCsv ''data.csv''], Inr prices)
   \<and> (\<exists>e. returned (sanitize_number_variance prices ''name'' 2) = Inl e)
   \<and> exit_status (main store_io (cli ''data.csv'' ''name'' None) disk) = 1
   \<and> files (main store_io (cli ''data.csv'' ''name'' None) disk) = disk
   \<and> filter is_write (events (main store_io (cli ''data.csv'' ''name'' None) disk)) = []
   \<and> (\<exists>df'. returned (sanitize_number_variance prices ''price'' 2) = Inr df'
        \<and> write_the_output store_io ''csv'' df' (target_file (cli ''data.csv'' ''price'' None)) disk =
            ([ToCsv ''data.csv'' df'], (''data.csv'', ''csv'', df') # disk, None))
   \<and> exit_status (main store_io (cli ''data.csv'' ''price'' None) disk) = 0"
proof -
  have r: "read_the_data store_io ''csv'' disk ''data.csv'' = ([ReadCsv ''data.csv''], Inr prices)"
    using cli_read [of "''name''" None] by (simp add: cli_fields)
  have bad: "returned (sanitize_number_variance prices ''name'' 2) =
      Inl (TypeError (''Column '' @ [CHR 0x27] @ ''name'' @ [CHR 0x27] @
        '' is not numeric. Please select a numeric column.''))"
    using sanitize_not_numeric [OF prices_name, of 2] by (simp add: name_column_def)
  from sanitizer_failure_stops_run [OF cli_infer [of "''name''" None] cli_read [of "''name''" None]]
  have fail: "exit_status (main store_io (cli ''data.csv'' ''name'' None) disk) = 1
      \<and> files (main store_io (cli ''data.csv'' ''name'' None) disk) = disk
      \<and> filter is_write (events (main store_io (cli ''data.csv'' ''name'' None) disk)) = []"
    using bad by (simp add: cli_fields)
  let ?df = "setitem prices ''price'' (round_series price_column 2)"
  have good: "returned (sanitize_number_variance prices ''price'' 2) = Inr ?df"
    using sanitize_numeric [OF prices_price price_column_numeric, of 2] by simp
  have w: "write_the_output store_io ''csv'' ?df (target_file (cli ''data.csv'' ''price'' None)) disk =
      ([ToCsv ''data.csv'' ?df], (''data.csv'', ''csv'', ?df) # disk, None)"
    by (simp add: write_the_output_def store_io_def target_file_def cli_def)
  from sanitizer_failure_stops_run [OF cli_infer [of "''price''" None] cli_read [of "''price''" None]]
  have ok: "exit_status (main store_io (cli ''data.csv'' ''price'' None) disk) = 0"
    using good w by (simp add: cli_fields)
  show ?thesis
    using cli_infer r bad fail good w ok by blast
qed

text \<open>
  C8. When no \<^verbatim>\<open>--file_type\<close> is given and the input path, lowered, ends neither in
  \<^verbatim>\<open>.csv\<close> nor in \<^verbatim>\<open>.json\<close>, the whole run is one logged \<^verbatim>\<open>ValueError\<close> (the spec's
  UnknownFileType) and exit status 1: nothing is read, nothing is written, the file
  system is untouched, and this holds whatever the reading and writing routines are.
\<close>

theorem unknown_file_type_fails:
  assumes "\<not> truthy (file_type a)"
    and "\<not> endswith (lower (input_file a)) ''.csv''"
    and "\<not> endswith (lower (input_file a)) ''.json''"
  shows "main io a fs =
    \<lparr>exit_status = 1,
     events = [LogError (''Value Error: '' @
       ''Could not infer file type from extension.  Please specify using --file_type.'')],
     files = fs\<rparr>"
  using assms by (simp add: main_def main_try_def infer_file_type_def)

theorem unknown_file_type_fails_witness:
  "\<not> truthy (file_type (cli ''data'' ''price'' None))
   \<and> \<not> endswith (lower (input_file (cli ''data'' ''price'' None))) ''.csv''
   \<and> \<not> endswith (lower (input_file (cli ''data'' ''price'' None))) ''.json''
   \<and> main store_io (cli ''data'' ''price'' None) [(''data'', ''csv'', prices)] =
       \<lparr>exit_status = 1,
        events = [LogError (''Value Error: '' @
          ''Could not infer file type from extension.  Please specify using --file_type.'')],
        files = [(''data'', ''csv'', prices)]\<rparr>"
proof -
  have h1: "\<not> truthy (file_type (cli ''data'' ''price'' None))"
    by (simp add: cli_def)
  have h2: "\<not> endswith (lower (input_file (cli ''data'' ''price'' None))) ''.csv''"
    by (simp add: cli_def endswith_def lower_def lower_char_def)
  have h3: "\<not> endswith (lower (input_file (cli ''data'' ''price'' None))) ''.json''"
    by (simp add: cli_def endswith_def lower_def lower_char_def)
  show ?thesis
    using h1 h2 h3 unknown_file_type_fails [OF h1 h2 h3] by simp
qed

lemma infer_file_type_cases:
  assumes "(truthy (file_type a) \<and> t = the (file_type a))
         \<or> (\<not> truthy (file_type a) \<and> endswith (lower (input_file a)) ''.csv'' \<and> t = ''csv'')
         \<or> (\<not> truthy (file_type a) \<and> \<not> endswith (lower (input_file a)) ''.csv''
              \<and> endswith (lower (input_file a)) ''.json'' \<and> t = ''json'')"
  shows "\<exists>ev0. infer_file_type (a\<lparr>output_file := out\<rparr>) = Inr (t, ev0)"
  using assms by (auto simp: infer_file_type_def)

lemma infer_ignores_output:
  "infer_file_type (a\<lparr>output_file := out\<rparr>) = infer_file_type a"
  by (simp add: infer_file_type_def)

lemma writer_of_type:
  assumes "infer_file_type a = Inr (t, ev0)"
    and "read_the_data io t fs (input_file a) = (ev1, Inr df)"
    and "returned (sanitize_number_variance df (column_name a) (precision a)) = Inr df'"
  shows "(t = ''csv'' \<longrightarrow>
            filter is_write (events (main io a fs)) = [ToCsv (target_file a) df']
          \<and> files (main io a fs) = fst (to_csv io df' (target_file a) fs))
    \<and> (t = ''json'' \<longrightarrow>
            filter is_write (events (main io a fs)) = [ToJson (target_file a) df']
          \<and> files (main io a fs) = fst (to_json io df' (target_file a) fs))"
proof -
  note nw = infer_no_write [OF assms(1)] read_no_write [OF assms(2)]
    sanitize_no_write except_no_write
  obtain ev2 fs' r where w: "write_the_output io t df' (target_file a) fs = (ev2, fs', r)"
    by (cases "write_the_output io t df' (target_file a) fs") auto
  have ev: "filter is_write (events (main io a fs)) = filter is_write ev2"
    and fl: "files (main io a fs) = fs'"
  proof -
    show "filter is_write (events (main io a fs)) = filter is_write ev2"
    proof (cases r)
      case None
      with w main_written [OF assms] show ?thesis by (simp add: nw)
    next
      case (Some e)
      with w main_write_fails [OF assms] show ?thesis by (simp add: nw)
    qed
    show "files (main io a fs) = fs'"
    proof (cases r)
      case None
      with w main_written [OF assms] show ?thesis by simp
    next
      case (Some e)
      with w main_write_fails [OF assms] show ?thesis by simp
    qed
  qed
  show ?thesis
    using w by (auto simp: ev fl write_the_output_def)
qed

text \<open>
  C10. Let \<open>t\<close> be the file type of the input: the value of \<^verbatim>\<open>--file_type\<close> when one is
  given, otherwise \<^verbatim>\<open>csv\<close> or \<^verbatim>\<open>json\<close> by the extension of the input file. When the run
  reads and sanitizes the table, then whatever \<^verbatim>\<open>--output_file\<close> is (absent, or a path
  with any extension), the file type settled for the run is the same, and the Writer is
  called once, on the output path, in the format \<open>t\<close>: \<^verbatim>\<open>to_csv\<close> for \<^verbatim>\<open>csv\<close>,
  \<^verbatim>\<open>to_json\<close> for \<^verbatim>\<open>json\<close>. The output path is only passed on: an output named
  \<^verbatim>\<open>out.json\<close> is written as CSV when the input is CSV, and an output named
  \<^verbatim>\<open>out.csv\<close> as JSON when \<^verbatim>\<open>--file_type json\<close> is given.
\<close>

theorem format_follows_input_type:
  assumes "(truthy (file_type a) \<and> t = the (file_type a))
         \<or> (\<not> truthy (file_type a) \<and> endswith (lower (input_file a)) ''.csv'' \<and> t = ''csv'')
         \<or> (\<not> truthy (file_type a) \<and> \<not> endswith (lower (input_file a)) ''.csv''
              \<and> endswith (lower (input_file a)) ''.json'' \<and> t = ''json'')"
    and "read_the_data io t fs (input_file a) = (ev1, Inr df)"
    and "returned (sanitize_number_variance df (column_name a) (precision a)) = Inr df'"
  shows "infer_file_type (a\<lparr>output_file := out\<rparr>) = infer_file_type a
    \<and> (t = ''csv'' \<longrightarrow>
            filter is_write (events (main io (a\<lparr>output_file := out\<rparr>) fs)) =
              [ToCsv (target_file (a\<lparr>output_file := out\<rparr>)) df']
          \<and> files (main io (a\<lparr>output_file := out\<rparr>) fs) =
              fst (to_csv io df' (target_file (a\<lparr>output_file := out\<rparr>)) fs))
    \<and> (t = ''json'' \<longrightarrow>
            filter is_write (events (main io (a\<lparr>output_file := out\<rparr>) fs)) =
              [ToJson (target_file (a\<lparr>output_file := out\<rparr>)) df']
          \<and> files (main io (a\<lparr>output_file := out\<rparr>) fs) =
              fst (to_json io df' (target_file (a\<lparr>output_file := out\<rparr>)) fs))"
proof -
  let ?a = "a\<lparr>output_file := out\<rparr>"
  obtain ev0 where i: "infer_file_type ?a = Inr (t, ev0)"
    using infer_file_type_cases [OF assms(1)] by blast
  have r: "read_the_data io t fs (input_file ?a) = (ev1, Inr df)"
    using assms(2) by simp
  have s: "returned (sanitize_number_variance df (column_name ?a) (precision ?a)) = Inr df'"
    using assms(3) by simp
  show ?thesis
    using writer_of_type [OF i r s] infer_ignores_output by blast
qed

theorem format_follows_input_type_witness:
  "filter is_write (events (main store_io (cli ''data.csv'' ''price'' (Some ''out.json'')) disk)) =
       [ToCsv ''out.json'' (setitem prices ''price'' (round_series price_column 2))]
   \<and> files (main store_io (cli ''data.csv'' ''price'' (Some ''out.json'')) disk) =
       (''out.json'', ''csv'', setitem prices ''price'' (round_series price_column 2)) # disk
   \<and> filter is_write (events (main store_io
         \<lparr>input_file = ''data.csv'', column_name = ''price'', precision = 2,
          output_file = Some ''out.csv'', file_type = Some ''json''\<rparr> disk)) =
       [ToJson ''out.csv'' (setitem prices ''price'' (round_series price_column 2))]
   \<and> files (main store_io
         \<lparr>input_file = ''data.csv'', column_name = ''price'', precision = 2,
          output_file = Some ''out.csv'', file_type = Some ''json''\<rparr> disk) =
       (''out.csv'', ''json'', setitem prices ''price'' (round_series price_column 2)) # disk"
proof -
  let ?a = "cli ''data.csv'' ''price'' None"
  let ?b = "\<lparr>input_file = ''data.csv'', column_name = ''price'', precision = 2,
          output_file = None, file_type = Some ''json''\<rparr>"
  let ?df = "setitem prices ''price'' (round_series price_column 2)"
  have good: "returned (sanitize_number_variance prices ''price'' 2) = Inr ?df"
    using sanitize_numeric [OF prices_price price_column_numeric, of 2] by simp
  have ta: "(truthy (file_type ?a) \<and> ''csv'' = the (file_type ?a))
         \<or> (\<not> truthy (file_type ?a) \<and> endswith (lower (input_file ?a)) ''.csv'' \<and> ''csv'' = ''csv'')
         \<or> (\<not> truthy (file_type ?a) \<and> \<not> endswith (lower (input_file ?a)) ''.csv''
              \<and> endswith (lower (input_file ?a)) ''.json'' \<and> ''csv'' = ''json'')"
    by (simp add: cli_def endswith_def lower_def lower_char_def)
  have ra: "read_the_data store_io ''csv'' disk (input_file ?a) = ([ReadCsv ''data.csv''], Inr prices)"
    by (rule cli_read)
  have sa: "returned (sanitize_number_variance prices (column_name ?a) (precision ?a)) = Inr ?df"
    using good by (simp add: cli_fields)
  have tb: "(truthy (file_type ?b) \<and> ''json'' = the (file_type ?b))
         \<or> (\<not> truthy (file_type ?b) \<and> endswith (lower (input_file ?b)) ''.csv'' \<and> ''json'' = ''csv'')
         \<or> (\<not> truthy (file_type ?b) \<and> \<not> endswith (lower (input_file ?b)) ''.csv''
              \<and> endswith (lower (input_file ?b)) ''.json'' \<and> ''json'' = ''json'')"
    by simp
  have rb: "read_the_data store_io ''json'' disk (input_file ?b) = ([ReadJson ''data.csv''], Inr prices)"
    by (simp add: read_the_data_def store_io_def load_def disk_def)
  have sb: "returned (sanitize_number_variance prices (column_name ?b) (precision ?b)) = Inr ?df"
    using good by simp
  have A: "filter is_write (events (main store_io (cli ''data.csv'' ''price'' (Some ''out.json'')) disk)) =
       [ToCsv ''out.json'' ?df]
   \<and> files (main store_io (cli ''data.csv'' ''price'' (Some ''out.json'')) disk) =
       (''out.json'', ''csv'', ?df) # disk"
    using format_follows_input_type [OF ta ra sa, of "Some ''out.json''"]
    by (simp add: cli_def target_file_def store_io_def)
  have B: "filter is_write (events (main store_io
         \<lparr>input_file = ''data.csv'', column_name = ''price'', precision = 2,
          output_file = Some ''out.csv'', file_type = Some ''json''\<rparr> disk)) =
       [ToJson ''out.csv'' ?df]
   \<and> files (main store_io
         \<lparr>input_file = ''data.csv'', column_name = ''price'', precision = 2,
          output_file = Some ''out.csv'', file_type = Some ''json''\<rparr> disk) =
       (''out.csv'', ''json'', ?df) # disk"
    using format_follows_input_type [OF tb rb sb, of "Some ''out.csv''"]
    by (simp add: target_file_def store_io_def)
  show ?thesis using A B by blast
qed

end
